theory Spec2Isabelle
  imports Complex_Main
begin

section \<open>Values received from the vendor cloud\<close>

text \<open>
  \<^verbatim>\<open>RyobiGDOApi.ts\<close> reads every HTTP body and every WebSocket message through
  \<^verbatim>\<open>JSON.parse\<close> and then probes the parsed value with optional chaining. The parsed
  value is modelled as a tree. \<open>JNum r\<close> is a finite number given by its exact value
  (the negative zero is identified with zero, which no code path here tells apart).
  \<open>JObj kvs\<close> lists the own properties of the object in the order in which
  \<^verbatim>\<open>Object.values\<close> enumerates them. A value that may be \<^verbatim>\<open>undefined\<close> is a
  \<open>json option\<close> with \<open>None\<close> for \<^verbatim>\<open>undefined\<close>.
\<close>

datatype json =
    JNull
  | JBool bool
  | JNum rat
  | JStr string
  | JArr "json list"
  | JObj "(string \<times> json) list"

type_synonym jsval = "json option"

text \<open>JavaScript truthiness, as tested by \<^verbatim>\<open>!x\<close>, \<^verbatim>\<open>x && y\<close> and \<^verbatim>\<open>if (x)\<close>.\<close>

fun truthy :: "json \<Rightarrow> bool" where
  "truthy JNull = False"
| "truthy (JBool b) = b"
| "truthy (JNum r) = (r \<noteq> 0)"
| "truthy (JStr s) = (s \<noteq> [])"
| "truthy (JArr xs) = True"
| "truthy (JObj kvs) = True"

fun truthy_val :: "jsval \<Rightarrow> bool" where
  "truthy_val None = False"
| "truthy_val (Some v) = truthy v"

text \<open>Truthiness of a field typed \<^verbatim>\<open>number | undefined\<close>.\<close>

fun truthy_num :: "rat option \<Rightarrow> bool" where
  "truthy_num None = False"
| "truthy_num (Some r) = (r \<noteq> 0)"

text \<open>
  \<open>field_of k v\<close> is \<^verbatim>\<open>v?.k\<close> for the property names the code uses other than
  \<^verbatim>\<open>length\<close> and \<^verbatim>\<open>0\<close>: \<^verbatim>\<open>undefined\<close> and \<^verbatim>\<open>null\<close> short-circuit to
  \<^verbatim>\<open>undefined\<close>, an object yields its own property, and a primitive or an array has
  no such property. (The one name that an array or a string does inherit, \<^verbatim>\<open>at\<close>, is a
  function there; every \<^verbatim>\<open>?.at\<close> in the code is followed by a further property read,
  which is \<^verbatim>\<open>undefined\<close> on that function, so \<open>None\<close> gives the same result.)
\<close>

fun field_of :: "string \<Rightarrow> jsval \<Rightarrow> jsval" where
  "field_of k (Some (JObj kvs)) = map_of kvs k"
| "field_of k _ = None"

text \<open>\<open>elem0 v\<close> is \<^verbatim>\<open>v?.[0]\<close>.\<close>

fun elem0 :: "jsval \<Rightarrow> jsval" where
  "elem0 (Some (JArr (x # xs))) = Some x"
| "elem0 (Some (JStr (c # cs))) = Some (JStr [c])"
| "elem0 (Some (JObj kvs)) = map_of kvs ''0''"
| "elem0 _ = None"

text \<open>\<open>js_length v\<close> is \<^verbatim>\<open>v?.length\<close>.\<close>

fun js_length :: "jsval \<Rightarrow> jsval" where
  "js_length (Some (JArr xs)) = Some (JNum (of_nat (length xs)))"
| "js_length (Some (JStr s)) = Some (JNum (of_nat (length s)))"
| "js_length (Some (JObj kvs)) = map_of kvs ''length''"
| "js_length _ = None"

text \<open>\<open>nullish v d\<close> is \<^verbatim>\<open>v ?? d\<close>.\<close>

fun nullish :: "jsval \<Rightarrow> json \<Rightarrow> json" where
  "nullish None d = d"
| "nullish (Some JNull) d = d"
| "nullish (Some v) d = v"

text \<open>\<^verbatim>\<open>typeof v === 'string'\<close>\<close>

fun is_string :: "jsval \<Rightarrow> bool" where
  "is_string (Some (JStr s)) = True"
| "is_string _ = False"

text \<open>
  \<^verbatim>\<open>a === b\<close>: primitives are compared by value; two objects or arrays that come from
  different \<^verbatim>\<open>JSON.parse\<close> calls are never the same reference.
\<close>

fun strict_eq :: "jsval \<Rightarrow> jsval \<Rightarrow> bool" where
  "strict_eq None None = True"
| "strict_eq (Some JNull) (Some JNull) = True"
| "strict_eq (Some (JBool a)) (Some (JBool b)) = (a = b)"
| "strict_eq (Some (JNum a)) (Some (JNum b)) = (a = b)"
| "strict_eq (Some (JStr a)) (Some (JStr b)) = (a = b)"
| "strict_eq _ _ = False"

text \<open>\<^verbatim>\<open>function toNumber(value) { return typeof value === 'number' ? value : undefined; }\<close>\<close>

fun toNumber :: "jsval \<Rightarrow> rat option" where
  "toNumber (Some (JNum r)) = Some r"
| "toNumber _ = None"

section \<open>Regular expressions used by the code\<close>

text \<open>
  Header values and identifiers are strings of 8-bit characters. \<^verbatim>\<open>\s\<close> matches tab,
  line feed, vertical tab, form feed, carriage return, space and the no-break space.
\<close>

definition is_space :: "char \<Rightarrow> bool" where
  "is_space c = (c \<in> set [CHR 0x09, CHR 0x0A, CHR 0x0B, CHR 0x0C, CHR 0x0D, CHR 0x20, CHR 0xA0])"

text \<open>
  With the \<^verbatim>\<open>i\<close> flag a character matches an ASCII letter of the pattern when both have
  the same upper-case form; a character outside ASCII never canonicalises to an ASCII one.
\<close>

definition to_upper :: "char \<Rightarrow> char" where
  "to_upper c =
     (case map_of (zip ''abcdefghijklmnopqrstuvwxyz'' ''ABCDEFGHIJKLMNOPQRSTUVWXYZ'') c of
        Some u \<Rightarrow> u
      | None \<Rightarrow> c)"

text \<open>A literal pattern matched case-insensitively at the start of the input.\<close>

fun literal_ci :: "string \<Rightarrow> string \<Rightarrow> string option" where
  "literal_ci [] s = Some s"
| "literal_ci (p # ps) [] = None"
| "literal_ci (p # ps) (c # cs) = (if to_upper c = to_upper p then literal_ci ps cs else None)"

text \<open>
  \<^verbatim>\<open>String.prototype.match\<close> and \<^verbatim>\<open>RegExp.prototype.test\<close> without the \<^verbatim>\<open>g\<close> flag
  try the pattern at each start position from the left and stop at the first success.
\<close>

fun search :: "(string \<Rightarrow> 'a option) \<Rightarrow> string \<Rightarrow> 'a option" where
  "search m [] = m []"
| "search m (c # cs) = (case m (c # cs) of Some r \<Rightarrow> Some r | None \<Rightarrow> search m cs)"

text \<open>
  \<^verbatim>\<open>/expires\s*=\s*([^;]+)/i\<close> at one start position; the result is group 1. Both
  \<^verbatim>\<open>\s*\<close> are greedy. The first one cannot usefully give characters back (what follows
  must be \<^verbatim>\<open>=\<close>). The second one gives back its last character exactly when the
  white space is followed by \<^verbatim>\<open>;\<close> or by the end of the input; group 1 is then that one
  white-space character.
\<close>

definition expires_at :: "string \<Rightarrow> string option" where
  "expires_at s =
     (case literal_ci ''expires'' s of
        None \<Rightarrow> None
      | Some r \<Rightarrow>
          (case dropWhile is_space r of
             [] \<Rightarrow> None
           | c # r2 \<Rightarrow>
               if c \<noteq> CHR ''='' then None
               else
                 (let ws = takeWhile is_space r2;
                      v = takeWhile (\<lambda>x. x \<noteq> CHR '';'') (dropWhile is_space r2)
                  in if v \<noteq> [] then Some v
                     else if ws \<noteq> [] then Some [last ws]
                     else None)))"

definition match_expires :: "string \<Rightarrow> string option" where
  "match_expires cookie = search expires_at cookie"

text \<open>
  \<^verbatim>\<open>/([^=]+)=([^;]+)/\<close> at one start position; the result is groups 1 and 2. Group 1
  is the longest run without \<^verbatim>\<open>=\<close>, it must be non-empty and be followed by \<^verbatim>\<open>=\<close>;
  group 2 is the longest run without \<^verbatim>\<open>;\<close> after it, and must be non-empty.
\<close>

definition pair_at :: "string \<Rightarrow> (string \<times> string) option" where
  "pair_at s =
     (let k = takeWhile (\<lambda>x. x \<noteq> CHR ''='') s in
      if k = [] then None
      else
        (case dropWhile (\<lambda>x. x \<noteq> CHR ''='') s of
           [] \<Rightarrow> None
         | e # r \<Rightarrow>
             (let v = takeWhile (\<lambda>x. x \<noteq> CHR '';'') r in
              if v = [] then None else Some (k, v))))"

definition match_pair :: "string \<Rightarrow> (string \<times> string) option" where
  "match_pair cookie = search pair_at cookie"

text \<open>\<^verbatim>\<open>/hub/i.test(s)\<close>.\<close>

definition test_hub :: "string \<Rightarrow> bool" where
  "test_hub s = (search (literal_ci ''hub'') s \<noteq> None)"

section \<open>Session\<close>

text \<open>
  \<^verbatim>\<open>RyobiGDOSession\<close>: the cookie jar (an object indexed by cookie name), the API key
  and the expiry of the cookies. \<open>cookieExpires\<close> is \<open>None\<close> while the property is
  unset, \<open>Some None\<close> for an invalid \<^verbatim>\<open>Date\<close> and \<open>Some (Some t)\<close> for the date
  \<open>t\<close>, in milliseconds since the epoch.
\<close>

record session =
  cookies :: "string \<rightharpoonup> string"
  apiKey :: jsval
  cookieExpires :: "int option option"

text \<open>
  The body of the loop of \<^verbatim>\<open>updateSessionFromCookies\<close> for one header. \<open>parse_date\<close>
  stands for the date parser behind \<^verbatim>\<open>new Date(string)\<close>, which is not part of the
  repository; it returns \<open>None\<close> for a string that yields an invalid date.
\<close>

definition updateSessionFromCookie :: "(string \<Rightarrow> int option) \<Rightarrow> session \<Rightarrow> string \<Rightarrow> session" where
  "updateSessionFromCookie parse_date s cookie =
     (let s1 = (case match_expires cookie of
                  Some e \<Rightarrow> s\<lparr>cookieExpires := Some (parse_date e)\<rparr>
                | None \<Rightarrow> s)
      in case match_pair cookie of
           Some (k, v) \<Rightarrow> s1\<lparr>cookies := (cookies s1)(k \<mapsto> v)\<rparr>
         | None \<Rightarrow> s1)"

fun updateSessionFromCookies :: "(string \<Rightarrow> int option) \<Rightarrow> session \<Rightarrow> string list \<Rightarrow> session" where
  "updateSessionFromCookies parse_date s [] = s"
| "updateSessionFromCookies parse_date s (cookie # cs) =
     updateSessionFromCookies parse_date (updateSessionFromCookie parse_date s cookie) cs"

section \<open>Errors, log and environment\<close>

text \<open>
  Every \<^verbatim>\<open>throw\<close> and every rejection the code can produce:
  \<^item> \<open>FetchError\<close>: \<^verbatim>\<open>fetch\<close> rejected (no response);
  \<^item> \<open>SyntaxError\<close>: \<^verbatim>\<open>JSON.parse\<close> threw;
  \<^item> \<open>TypeError\<close>: a property was read from \<^verbatim>\<open>null\<close>;
  \<^item> \<open>Unauthorized r\<close>: \<^verbatim>\<open>Error('Unauthorized -- check your ryobi username/password: ' + r)\<close>,
    where \<open>r\<close> is the value of \<^verbatim>\<open>result.result\<close> appended to the message;
  \<^item> \<open>InvalidResponse v\<close>: \<^verbatim>\<open>Error('Invalid response: ' + JSON.stringify(v, null, 2))\<close>;
  \<^item> \<open>ModuleIdUndefined\<close>, \<open>PortIdUndefined\<close>: \<^verbatim>\<open>Error('doorModuleId is undefined')\<close>
    and \<^verbatim>\<open>Error('doorPortId is undefined')\<close>;
  \<^item> \<open>ClosedPrematurely\<close>: \<^verbatim>\<open>reject('WebSocket closed prematurely')\<close>;
  \<^item> \<open>SocketError x\<close>: \<^verbatim>\<open>reject(x)\<close> in the \<^verbatim>\<open>error\<close> handler of the socket.
\<close>

datatype error =
    FetchError
  | SyntaxError
  | TypeError
  | Unauthorized jsval
  | InvalidResponse json
  | ModuleIdUndefined
  | PortIdUndefined
  | ClosedPrematurely
  | SocketError string

text \<open>The calls of \<^verbatim>\<open>logger.error\<close>, in the order in which they are made.\<close>

datatype log_entry =
    OpenDoorError error
  | CloseDoorError error
  | UnableToQueryDoorState
  | DeviceTypeMapNotFound
  | ClosingBeforeCompleted
  | WebSocketError string

text \<open>
  The requests the code issues: the form-encoded \<^verbatim>\<open>POST\<close> to \<^verbatim>\<open>apikeyURL\<close> with the
  user name and the password, the \<^verbatim>\<open>GET\<close> of \<^verbatim>\<open>deviceURL\<close>, and the \<^verbatim>\<open>GET\<close> of
  \<^verbatim>\<open>deviceURL + '/' + device.id\<close>, recorded with the value of \<^verbatim>\<open>device.id\<close>.
\<close>

datatype http_request =
    PostLogin string string
  | GetDevices
  | GetDevice jsval

text \<open>
  What \<^verbatim>\<open>fetch\<close> yields: a rejection, or a response with its \<^verbatim>\<open>set-cookie\<close> headers
  (the empty list when there is none) and its body, \<open>None\<close> when the body is not JSON.
\<close>

datatype reply =
    NetworkError
  | Response "string list" "json option"

text \<open>What a \<^verbatim>\<open>WebSocket\<close> emits, and what the code sends over it.\<close>

datatype ws_event =
    WsOpen
  | WsMessage "json option"
  | WsPong
  | WsClose
  | WsError string

datatype frame =
    Text json
  | Ping

text \<open>
  The parts of the API object that never change (\<^verbatim>\<open>credentials\<close>), and the two library
  functions the code relies on that are not part of the repository: the date parser of
  \<^verbatim>\<open>new Date(string)\<close> and the conversion of a value that is not a string to a string,
  as done by \<^verbatim>\<open>+\<close> on strings and by \<^verbatim>\<open>RegExp.prototype.test\<close>.
\<close>

record env =
  email :: string
  password :: string
  parse_date :: "string \<Rightarrow> int option"
  String_of :: "json \<Rightarrow> string"

text \<open>
  The mutable world: the session of the API object, the clock read by \<^verbatim>\<open>new Date()\<close>
  and \<^verbatim>\<open>Date.now()\<close>, the replies the server will give to the next requests (each with
  the time the exchange takes), the requests issued so far, the events the next sockets
  will emit, the frames sent so far, and the error log. When the script of replies is
  exhausted \<^verbatim>\<open>fetch\<close> rejects; when the script of sockets is exhausted a new socket
  emits nothing.
\<close>

record world =
  session :: session
  clock :: int
  replies :: "(nat \<times> reply) list"
  requests :: "http_request list"
  sockets :: "ws_event list list"
  wire :: "frame list"
  errors :: "log_entry list"

section \<open>Devices\<close>

datatype device_type = hub | gdo

text \<open>
  \<^verbatim>\<open>Partial<RyobiGDODevice>\<close>: every property may be absent (\<open>None\<close>). The source's
  \<^verbatim>\<open>id\<close> and \<^verbatim>\<open>type\<close> are the fields \<open>id_dev\<close> and \<open>type_dev\<close>.
\<close>

record device =
  id_dev :: jsval
  name :: jsval
  description :: jsval
  model :: jsval
  type_dev :: "device_type option"
  moduleId :: "rat option"
  portId :: "rat option"
  state :: "rat option"
  stateAsOf :: "int option"

datatype DoorState = CLOSED | OPEN | CLOSING | OPENING

definition doorStateMap :: "rat \<Rightarrow> DoorState option" where
  "doorStateMap = map_of [(0, CLOSED), (1, OPEN), (2, CLOSING), (3, OPENING)]"

section \<open>HTTP\<close>

text \<open>
  \<^verbatim>\<open>request\<close>: issue the request with the session's cookies, then merge the
  \<^verbatim>\<open>set-cookie\<close> headers of the response into the session. The result is the body.
\<close>

definition request :: "env \<Rightarrow> http_request \<Rightarrow> world \<Rightarrow> (error + json option) \<times> world" where
  "request env rq w =
     (case replies w of
        [] \<Rightarrow> (Inl FetchError, w\<lparr>requests := requests w @ [rq]\<rparr>)
      | (dt, r) # rest \<Rightarrow>
          (let w1 = w\<lparr>requests := requests w @ [rq], replies := rest, clock := clock w + int dt\<rparr>
           in case r of
                NetworkError \<Rightarrow> (Inl FetchError, w1)
              | Response cs body \<Rightarrow>
                  (Inr body,
                   w1\<lparr>session := updateSessionFromCookies (parse_date env) (session w1) cs\<rparr>)))"

definition getJson :: "env \<Rightarrow> http_request \<Rightarrow> world \<Rightarrow> (error + json) \<times> world" where
  "getJson env rq w =
     (case request env rq w of
        (Inl e, w1) \<Rightarrow> (Inl e, w1)
      | (Inr None, w1) \<Rightarrow> (Inl SyntaxError, w1)
      | (Inr (Some j), w1) \<Rightarrow> (Inr j, w1))"

text \<open>
  The guard of \<^verbatim>\<open>getApiKey\<close>:
  \<^verbatim>\<open>this.session.apiKey && this.session.cookieExpires && this.session.cookieExpires > new Date()\<close>.
  A \<^verbatim>\<open>Date\<close> object is truthy even when invalid; the comparison with an invalid date is
  false.
\<close>

definition key_is_fresh :: "world \<Rightarrow> bool" where
  "key_is_fresh w =
     (truthy_val (apiKey (session w)) \<and>
      (case cookieExpires (session w) of
         None \<Rightarrow> False
       | Some None \<Rightarrow> False
       | Some (Some t) \<Rightarrow> clock w < t))"

definition getApiKey :: "env \<Rightarrow> world \<Rightarrow> (error + json) \<times> world" where
  "getApiKey env w =
     (case (if key_is_fresh w then apiKey (session w) else None) of
        Some k \<Rightarrow> (Inr k, w)
      | None \<Rightarrow>
          (case getJson env (PostLogin (email env) (password env)) w of
             (Inl e, w1) \<Rightarrow> (Inl e, w1)
           | (Inr result, w1) \<Rightarrow>
               if result = JNull then (Inl TypeError, w1)
               else
                 (let r = field_of ''result'' (Some result) in
                  if is_string r then (Inl (Unauthorized r), w1)
                  else
                    (case field_of ''apiKey'' (field_of ''auth'' r) of
                       None \<Rightarrow> (Inl (Unauthorized r), w1)
                     | Some k \<Rightarrow>
                         if \<not> truthy k then (Inl (Unauthorized r), w1)
                         else (Inr k, w1\<lparr>session := (session w1)\<lparr>apiKey := Some k\<rparr>\<rparr>)))))"

definition getDevicesRaw :: "env \<Rightarrow> world \<Rightarrow> (error + json list) \<times> world" where
  "getDevicesRaw env w =
     (case getJson env GetDevices w of
        (Inl e, w1) \<Rightarrow> (Inl e, w1)
      | (Inr result, w1) \<Rightarrow>
          if result = JNull then (Inl TypeError, w1)
          else
            (case field_of ''result'' (Some result) of
               Some (JArr xs) \<Rightarrow> (Inr xs, w1)
             | r \<Rightarrow> (Inl (Unauthorized r), w1)))"

text \<open>The argument of \<^verbatim>\<open>RegExp.prototype.test\<close> is converted to a string first.\<close>

definition to_string :: "env \<Rightarrow> json \<Rightarrow> string" where
  "to_string env v = (case v of JStr s \<Rightarrow> s | _ \<Rightarrow> String_of env v)"

text \<open>
  The callback of \<^verbatim>\<open>devices.map\<close> in \<^verbatim>\<open>getDevices\<close>. Reading \<^verbatim>\<open>device.metaData\<close>
  from a \<^verbatim>\<open>null\<close> entry throws.
\<close>

definition device_of_raw :: "env \<Rightarrow> json \<Rightarrow> error + device" where
  "device_of_raw env raw =
     (if raw = JNull then Inl TypeError
      else
        Inr \<lparr> id_dev = Some (nullish (field_of ''varName'' (Some raw)) (JStr [])),
              name = Some (nullish (field_of ''name'' (field_of ''metaData'' (Some raw))) (JStr [])),
              description =
                Some (nullish (field_of ''description'' (field_of ''metaData'' (Some raw))) (JStr [])),
              model = Some (nullish (elem0 (field_of ''deviceTypeIds'' (Some raw))) (JStr [])),
              type_dev =
                Some (if test_hub
                           (to_string env
                              (nullish (elem0 (field_of ''deviceTypeIds'' (Some raw))) (JStr [])))
                      then hub else gdo),
              moduleId = None, portId = None, state = None, stateAsOf = None \<rparr>)"

fun map_devices :: "env \<Rightarrow> json list \<Rightarrow> error + device list" where
  "map_devices env [] = Inr []"
| "map_devices env (raw # raws) =
     (case device_of_raw env raw of
        Inl e \<Rightarrow> Inl e
      | Inr d \<Rightarrow> (case map_devices env raws of Inl e \<Rightarrow> Inl e | Inr ds \<Rightarrow> Inr (d # ds)))"

definition getDevices :: "env \<Rightarrow> world \<Rightarrow> (error + device list) \<times> world" where
  "getDevices env w =
     (case getApiKey env w of
        (Inl e, w1) \<Rightarrow> (Inl e, w1)
      | (Inr k, w1) \<Rightarrow>
          (case getDevicesRaw env w1 of
             (Inl e, w2) \<Rightarrow> (Inl e, w2)
           | (Inr devices, w2) \<Rightarrow> (map_devices env devices, w2)))"

text \<open>
  \<^verbatim>\<open>Object.assign(device, found)\<close>, where \<open>found\<close> is an element of the list made by
  \<^verbatim>\<open>getDevices\<close> or \<^verbatim>\<open>undefined\<close>: each property the source object has is copied.
\<close>

definition assign :: "device \<Rightarrow> device option \<Rightarrow> device" where
  "assign d found =
     (case found of
        None \<Rightarrow> d
      | Some x \<Rightarrow>
          \<lparr> id_dev = (case id_dev x of None \<Rightarrow> id_dev d | Some v \<Rightarrow> Some v),
            name = (case name x of None \<Rightarrow> name d | Some v \<Rightarrow> Some v),
            description = (case description x of None \<Rightarrow> description d | Some v \<Rightarrow> Some v),
            model = (case model x of None \<Rightarrow> model d | Some v \<Rightarrow> Some v),
            type_dev = (case type_dev x of None \<Rightarrow> type_dev d | Some v \<Rightarrow> Some v),
            moduleId = (case moduleId x of None \<Rightarrow> moduleId d | Some v \<Rightarrow> Some v),
            portId = (case portId x of None \<Rightarrow> portId d | Some v \<Rightarrow> Some v),
            state = (case state x of None \<Rightarrow> state d | Some v \<Rightarrow> Some v),
            stateAsOf = (case stateAsOf x of None \<Rightarrow> stateAsOf d | Some v \<Rightarrow> Some v) \<rparr>)"

definition getDeviceId :: "env \<Rightarrow> device \<Rightarrow> world \<Rightarrow> (error + unit) \<times> device \<times> world" where
  "getDeviceId env d w =
     (if truthy_val (id_dev d) then (Inr (), d, w)
      else
        (case getDevices env w of
           (Inl e, w1) \<Rightarrow> (Inl e, d, w1)
         | (Inr devices, w1) \<Rightarrow>
             if \<not> truthy_val (id_dev d) \<and> truthy_val (name d)
             then (Inr (), assign d (find (\<lambda>x. strict_eq (name x) (name d)) devices), w1)
             else (Inr (), assign d (find (\<lambda>x. type_dev x \<noteq> Some hub) devices), w1)))"

section \<open>Device status\<close>

text \<open>\<^verbatim>\<open>Object.values(map)\<close> for a truthy \<open>map\<close>.\<close>

fun object_values :: "json \<Rightarrow> json list" where
  "object_values (JObj kvs) = map snd kvs"
| "object_values (JArr xs) = xs"
| "object_values (JStr s) = map (\<lambda>c. JStr [c]) s"
| "object_values _ = []"

text \<open>\<^verbatim>\<open>typeof v === 'string' && v.indexOf('garageDoor_') === 0\<close>\<close>

fun is_garage_profile :: "json \<Rightarrow> bool" where
  "is_garage_profile (JStr s) = (take 11 s = ''garageDoor_'')"
| "is_garage_profile _ = False"

text \<open>
  The predicate given to \<^verbatim>\<open>find\<close>:
  \<^verbatim>\<open>Array.isArray(m?.at?.moduleProfiles?.value) && m?.at?.moduleProfiles?.value?.some(...)\<close>.
\<close>

definition is_garage_module :: "json \<Rightarrow> bool" where
  "is_garage_module m =
     (case field_of ''value'' (field_of ''moduleProfiles'' (field_of ''at'' (Some m))) of
        Some (JArr vs) \<Rightarrow> list_ex is_garage_profile vs
      | _ \<Rightarrow> False)"

text \<open>\<^verbatim>\<open>'garageDoor_' + device.portId\<close>\<close>

definition door_key :: "env \<Rightarrow> rat option \<Rightarrow> string" where
  "door_key env p =
     ''garageDoor_'' @ (case p of None \<Rightarrow> ''undefined'' | Some n \<Rightarrow> String_of env (JNum n))"

definition updateDevice :: "env \<Rightarrow> device \<Rightarrow> world \<Rightarrow> (error + unit) \<times> device \<times> world" where
  "updateDevice env d w =
     (case (if \<not> truthy_val (id_dev d) then getDeviceId env d w else (Inr (), d, w)) of
        (Inl e, d1, w1) \<Rightarrow> (Inl e, d1, w1)
      | (Inr u, d1, w1) \<Rightarrow>
          (case getApiKey env w1 of
             (Inl e, w2) \<Rightarrow> (Inl e, d1, w2)
           | (Inr k, w2) \<Rightarrow>
               (case getJson env (GetDevice (id_dev d1)) w2 of
                  (Inl e, w3) \<Rightarrow> (Inl e, d1, w3)
                | (Inr values, w3) \<Rightarrow>
                    if \<not> truthy_val (js_length (field_of ''result'' (Some values)))
                    then (Inl (InvalidResponse values), d1, w3)
                    else
                      (let deviceTypeMap = field_of ''deviceTypeMap'' (elem0 (field_of ''result'' (Some values)))
                       in if \<not> truthy_val deviceTypeMap
                          then (Inr (), d1, w3\<lparr>errors := errors w3 @ [DeviceTypeMapNotFound]\<rparr>)
                          else
                            (let garageDoorModule =
                                   find is_garage_module
                                     (case deviceTypeMap of None \<Rightarrow> [] | Some m \<Rightarrow> object_values m);
                                 p = toNumber (field_of ''value'' (field_of ''portId''
                                       (field_of ''at'' garageDoorModule)));
                                 mi = toNumber (field_of ''value'' (field_of ''moduleId''
                                       (field_of ''at'' garageDoorModule)));
                                 st = toNumber (field_of ''value'' (field_of ''doorState''
                                       (field_of ''at'' (field_of (door_key env p) deviceTypeMap))))
                             in (Inr (),
                                 d1\<lparr>portId := p, moduleId := mi, state := st,
                                    stateAsOf := Some (clock w3)\<rparr>,
                                 w3))))))"

definition getStatus ::
  "env \<Rightarrow> device \<Rightarrow> world \<Rightarrow> (error + DoorState option) \<times> device \<times> world" where
  "getStatus env d w =
     (case updateDevice env d w of
        (Inl e, d1, w1) \<Rightarrow> (Inl e, d1, w1)
      | (Inr u, d1, w1) \<Rightarrow>
          (case state d1 of
             None \<Rightarrow> (Inr None, d1, w1\<lparr>errors := errors w1 @ [UnableToQueryDoorState]\<rparr>)
           | Some c \<Rightarrow> (Inr (doorStateMap c), d1, w1)))"

section \<open>Command channel\<close>

text \<open>
  The promise made in \<^verbatim>\<open>sendWebsocketCommand\<close>: \<^verbatim>\<open>resolve\<close> and \<^verbatim>\<open>reject\<close> only
  have an effect while it is pending.
\<close>

datatype promise = Pending | Resolved | Rejected error

definition settle :: "promise \<Rightarrow> promise \<Rightarrow> promise" where
  "settle p new = (if p = Pending then new else p)"

text \<open>
  What the handlers of one socket share: the local variable \<^verbatim>\<open>complete\<close>, the frames
  passed to \<^verbatim>\<open>ws.send\<close> and \<^verbatim>\<open>ws.ping\<close>, the promise, whether \<^verbatim>\<open>ws.terminate\<close> was
  called, and the errors logged.
\<close>

record ws_state =
  complete_flag :: bool
  sent :: "frame list"
  promise :: promise
  terminated :: bool
  logged :: "log_entry list"

definition socket0 :: ws_state where
  "socket0 = \<lparr> complete_flag = False, sent = [], promise = Pending, terminated = False,
               logged = [] \<rparr>"

text \<open>\<^verbatim>\<open>JSON.stringify\<close> leaves out a property whose value is \<^verbatim>\<open>undefined\<close>.\<close>

definition json_member :: "string \<Rightarrow> jsval \<Rightarrow> (string \<times> json) list" where
  "json_member k v = (case v of None \<Rightarrow> [] | Some x \<Rightarrow> [(k, x)])"

definition login_frame :: "env \<Rightarrow> json \<Rightarrow> json" where
  "login_frame env key =
     JObj [(''jsonrpc'', JStr ''2.0''), (''id'', JNum 3), (''method'', JStr ''srvWebSocketAuth''),
           (''params'', JObj [(''varName'', JStr (email env)), (''apiKey'', key)])]"

definition command_frame :: "device \<Rightarrow> json \<Rightarrow> json" where
  "command_frame d message =
     JObj [(''jsonrpc'', JStr ''2.0''), (''method'', JStr ''gdoModuleCommand''),
           (''params'',
            JObj ([(''msgType'', JNum 16)] @
                  json_member ''moduleType'' (map_option JNum (moduleId d)) @
                  json_member ''portId'' (map_option JNum (portId d)) @
                  [(''moduleMsg'', message)] @
                  json_member ''topic'' (id_dev d)))]"

text \<open>
  The five handlers. The \<^verbatim>\<open>message\<close> handler throws when the data is not JSON and
  when it is the JSON \<^verbatim>\<open>null\<close>; such an exception is raised inside the socket's
  event dispatch, outside the promise.
\<close>

definition on_open :: "env \<Rightarrow> json \<Rightarrow> ws_state \<Rightarrow> ws_state" where
  "on_open env key st = st\<lparr>sent := sent st @ [Text (login_frame env key)]\<rparr>"

definition on_message :: "device \<Rightarrow> json \<Rightarrow> json option \<Rightarrow> ws_state \<Rightarrow> error + ws_state" where
  "on_message d message data st =
     (case data of
        None \<Rightarrow> Inl SyntaxError
      | Some returnObj \<Rightarrow>
          if returnObj = JNull then Inl TypeError
          else if \<not> truthy_val (field_of ''authorized'' (field_of ''result'' (Some returnObj)))
          then Inr st
          else Inr (st\<lparr>sent := sent st @ [Text (command_frame d message), Ping],
                       complete_flag := True\<rparr>))"

definition on_pong :: "ws_state \<Rightarrow> ws_state" where
  "on_pong st = st\<lparr>terminated := True, promise := settle (promise st) Resolved\<rparr>"

definition on_close :: "ws_state \<Rightarrow> ws_state" where
  "on_close st =
     (if \<not> complete_flag st
      then st\<lparr>logged := logged st @ [ClosingBeforeCompleted],
              promise := settle (promise st) (Rejected ClosedPrematurely)\<rparr>
      else st)"

definition on_error :: "string \<Rightarrow> ws_state \<Rightarrow> ws_state" where
  "on_error x st =
     st\<lparr>logged := logged st @ [WebSocketError x],
        promise := settle (promise st) (Rejected (SocketError x))\<rparr>"

fun handle :: "env \<Rightarrow> json \<Rightarrow> device \<Rightarrow> json \<Rightarrow> ws_event \<Rightarrow> ws_state \<Rightarrow> error + ws_state" where
  "handle env key d message WsOpen st = Inr (on_open env key st)"
| "handle env key d message (WsMessage data) st = on_message d message data st"
| "handle env key d message WsPong st = Inr (on_pong st)"
| "handle env key d message WsClose st = Inr (on_close st)"
| "handle env key d message (WsError x) st = Inr (on_error x st)"

text \<open>
  The events of one socket, dispatched in order. The dispatch stops at the first handler
  that throws; the result is the last state and that exception, if any.
\<close>

fun run_socket ::
  "env \<Rightarrow> json \<Rightarrow> device \<Rightarrow> json \<Rightarrow> ws_state \<Rightarrow> ws_event list \<Rightarrow> ws_state \<times> error option" where
  "run_socket env key d message st [] = (st, None)"
| "run_socket env key d message st (e # es) =
     (case handle env key d message e st of
        Inl x \<Rightarrow> (st, Some x)
      | Inr st' \<Rightarrow> run_socket env key d message st' es)"

text \<open>
  How a call ends: it returns, it throws, its promise is never settled, or a handler of
  its socket threw while the promise was pending.
\<close>

datatype completion = Returned | Thrown error | NeverSettles | Uncaught error

text \<open>\<^verbatim>\<open>await promise\<close>\<close>

definition await :: "ws_state \<times> error option \<Rightarrow> completion" where
  "await r =
     (case promise (fst r) of
        Resolved \<Rightarrow> Returned
      | Rejected e \<Rightarrow> Thrown e
      | Pending \<Rightarrow> (case snd r of None \<Rightarrow> NeverSettles | Some x \<Rightarrow> Uncaught x))"

definition sendWebsocketCommand ::
  "env \<Rightarrow> device \<Rightarrow> json \<Rightarrow> world \<Rightarrow> completion \<times> device \<times> world" where
  "sendWebsocketCommand env d message w =
     (case (if \<not> truthy_num (moduleId d) \<or> \<not> truthy_num (portId d)
            then updateDevice env d w else (Inr (), d, w)) of
        (Inl e, d1, w1) \<Rightarrow> (Thrown e, d1, w1)
      | (Inr u, d1, w1) \<Rightarrow>
          if \<not> truthy_num (moduleId d1) then (Thrown ModuleIdUndefined, d1, w1)
          else if \<not> truthy_num (portId d1) then (Thrown PortIdUndefined, d1, w1)
          else
            (case getApiKey env w1 of
               (Inl e, w2) \<Rightarrow> (Thrown e, d1, w2)
             | (Inr key, w2) \<Rightarrow>
                 (let r = run_socket env key d1 message socket0
                            (case sockets w2 of [] \<Rightarrow> [] | evs # rest \<Rightarrow> evs)
                  in (await r, d1,
                      w2\<lparr>sockets := tl (sockets w2),
                         wire := wire w2 @ sent (fst r),
                         errors := errors w2 @ logged (fst r)\<rparr>))))"

definition doorCommand :: "rat \<Rightarrow> json" where
  "doorCommand n = JObj [(''doorCommand'', JNum n)]"

definition openDoor :: "env \<Rightarrow> device \<Rightarrow> world \<Rightarrow> completion \<times> device \<times> world" where
  "openDoor env d w =
     (case sendWebsocketCommand env d (doorCommand 1) w of
        (Thrown x, d1, w1) \<Rightarrow> (Returned, d1, w1\<lparr>errors := errors w1 @ [OpenDoorError x]\<rparr>)
      | r \<Rightarrow> r)"

definition closeDoor :: "env \<Rightarrow> device \<Rightarrow> world \<Rightarrow> completion \<times> device \<times> world" where
  "closeDoor env d w =
     (case sendWebsocketCommand env d (doorCommand 0) w of
        (Thrown x, d1, w1) \<Rightarrow> (Returned, d1, w1\<lparr>errors := errors w1 @ [CloseDoorError x]\<rparr>)
      | r \<Rightarrow> r)"

section \<open>Concrete scenarios\<close>

text \<open>
  The inputs at which the theorems below are instantiated. \<open>decimal\<close> writes a natural
  number in base ten, as JavaScript does for the integers that occur here.
\<close>

function decimal :: "nat \<Rightarrow> string" where
  "decimal n =
     (if n < 10 then [''0123456789'' ! n]
      else decimal (n div 10) @ [''0123456789'' ! (n mod 10)])"
  by pat_completeness auto
termination
  by (relation "measure (\<lambda>n. n)") auto

declare decimal.simps [simp del]

definition env0 :: env where
  "env0 =
     \<lparr> email = ''me@example.com'', password = ''secret'',
       parse_date =
         (\<lambda>s. if s = ''Fri, 01 Jan 2100 00:00:00 GMT'' then Some 4102444800000 else None),
       String_of = (\<lambda>v. case v of JNum r \<Rightarrow> decimal (nat \<lfloor>r\<rfloor>) | _ \<Rightarrow> ''[object Object]'') \<rparr>"

definition session0 :: session where
  "session0 = \<lparr> cookies = Map.empty, apiKey = None, cookieExpires = None \<rparr>"

definition session1 :: session where
  "session1 =
     \<lparr> cookies = [''sid'' \<mapsto> ''abc''], apiKey = Some (JStr ''k1''),
       cookieExpires = Some (Some 4102444800000) \<rparr>"

definition world0 :: "session \<Rightarrow> (nat \<times> reply) list \<Rightarrow> ws_event list list \<Rightarrow> world" where
  "world0 s rs ss =
     \<lparr> session = s, clock = 1000, replies = rs, requests = [], sockets = ss, wire = [],
       errors = [] \<rparr>"

definition device0 :: device where
  "device0 =
     \<lparr> id_dev = None, name = None, description = None, model = None, type_dev = None,
       moduleId = None, portId = None, state = None, stateAsOf = None \<rparr>"

definition device1 :: device where
  "device1 =
     \<lparr> id_dev = Some (JStr ''abc123''), name = Some (JStr ''MyGDO''), description = None,
       model = None, type_dev = None, moduleId = Some 2, portId = Some 5, state = Some 1,
       stateAsOf = Some 500 \<rparr>"

definition device2 :: device where
  "device2 =
     \<lparr> id_dev = Some (JStr []), name = Some (JStr ''MyGDO''), description = Some (JStr ''old''),
       model = Some (JStr ''wgd0''), type_dev = Some gdo, moduleId = Some 2, portId = Some 5,
       state = Some 1, stateAsOf = Some 500 \<rparr>"

definition login_ok :: reply where
  "login_ok =
     Response [''sid=abc; Expires=Fri, 01 Jan 2100 00:00:00 GMT; Path=/'']
       (Some (JObj [(''result'', JObj [(''auth'', JObj [(''apiKey'', JStr ''k1'')])])]))"

definition login_empty_key :: reply where
  "login_empty_key =
     Response [] (Some (JObj [(''result'', JObj [(''auth'', JObj [(''apiKey'', JStr [])])])]))"

definition raw_hub :: json where
  "raw_hub =
     JObj [(''varName'', JStr ''hub1''), (''metaData'', JObj [(''name'', JStr ''Hub'')]),
           (''deviceTypeIds'', JArr [JStr ''wgd1234hub''])]"

definition raw_gdo :: json where
  "raw_gdo =
     JObj [(''varName'', JStr ''abc123''), (''metaData'', JObj [(''name'', JStr ''MyGDO'')]),
           (''deviceTypeIds'', JArr [JStr ''wgd1234''])]"

definition list_ok :: reply where
  "list_ok = Response [] (Some (JObj [(''result'', JArr [raw_hub, raw_gdo])]))"

definition status_ok :: "rat \<Rightarrow> rat \<Rightarrow> rat \<Rightarrow> reply" where
  "status_ok p m c =
     Response []
       (Some (JObj [(''result'', JArr [JObj [(''deviceTypeMap'', JObj [
          (''light_1'', JObj [(''at'', JObj [
             (''moduleProfiles'', JObj [(''value'', JArr [JStr ''light_''])]),
             (''portId'', JObj [(''value'', JNum 1)])])]),
          (''garageDoor_5'', JObj [(''at'', JObj [
             (''moduleProfiles'', JObj [(''value'', JArr [JStr ''garageDoor_x''])]),
             (''portId'', JObj [(''value'', JNum p)]),
             (''moduleId'', JObj [(''value'', JNum m)]),
             (''doorState'', JObj [(''value'', JNum c)])])])])]])]))"

definition status_no_map :: reply where
  "status_no_map = Response [] (Some (JObj [(''result'', JArr [JObj []])]))"

definition status_empty_map :: reply where
  "status_empty_map =
     Response [] (Some (JObj [(''result'', JArr [JObj [(''deviceTypeMap'', JObj [])]])]))"

definition authorized_msg :: json where
  "authorized_msg = JObj [(''result'', JObj [(''authorized'', JBool True)])]"

section \<open>Evaluating the scenarios\<close>

lemmas run_defs =
  getStatus_def updateDevice_def getDeviceId_def getDevices_def getDevicesRaw_def getApiKey_def
  getJson_def request_def key_is_fresh_def device_of_raw_def assign_def to_string_def
  test_hub_def to_upper_def door_key_def is_garage_module_def doorStateMap_def
  updateSessionFromCookie_def match_expires_def match_pair_def expires_at_def pair_at_def
  is_space_def sendWebsocketCommand_def openDoor_def closeDoor_def doorCommand_def
  await_def on_open_def on_message_def on_pong_def on_close_def on_error_def settle_def
  socket0_def

lemmas scenario_defs =
  env0_def session0_def session1_def world0_def device0_def device1_def device2_def login_ok_def
  login_empty_key_def raw_hub_def raw_gdo_def list_ok_def status_ok_def status_no_map_def
  status_empty_map_def authorized_msg_def decimal.simps

lemma offline_command:
  "sendWebsocketCommand env0 device0 message (world0 session0 [] []) =
     (Thrown FetchError, device0,
      (world0 session0 [] [])\<lparr>requests := [PostLogin ''me@example.com'' ''secret'']\<rparr>)"
  by (simp add: run_defs scenario_defs)

section \<open>Cookie merge\<close>

lemma cookie_shape:
  "\<exists>E M. \<forall>s. updateSessionFromCookie pd s c =
      s\<lparr>cookieExpires := (case E of None \<Rightarrow> cookieExpires s | Some e \<Rightarrow> e),
        cookies := cookies s ++ M\<rparr>"
proof -
  obtain E :: "int option option option" where E:
    "E = (case match_expires c of None \<Rightarrow> None | Some e \<Rightarrow> Some (Some (pd e)))"
    by simp
  obtain M :: "string \<rightharpoonup> string" where M:
    "M = (case match_pair c of None \<Rightarrow> Map.empty | Some (k, v) \<Rightarrow> [k \<mapsto> v])"
    by simp
  have "\<forall>s. updateSessionFromCookie pd s c =
      s\<lparr>cookieExpires := (case E of None \<Rightarrow> cookieExpires s | Some e \<Rightarrow> e),
        cookies := cookies s ++ M\<rparr>"
    by (simp add: updateSessionFromCookie_def E M split: option.splits prod.splits)
  then show ?thesis by blast
qed

lemma cookies_shape:
  "\<exists>E M. \<forall>s. updateSessionFromCookies pd s cs =
      s\<lparr>cookieExpires := (case E of None \<Rightarrow> cookieExpires s | Some e \<Rightarrow> e),
        cookies := cookies s ++ M\<rparr>"
proof (induction cs)
  case Nil
  show ?case by (intro exI[of _ None] exI[of _ Map.empty]) simp
next
  case (Cons c cs)
  from cookie_shape[of pd c] obtain E1 M1 where 1: "\<And>s. updateSessionFromCookie pd s c =
      s\<lparr>cookieExpires := (case E1 of None \<Rightarrow> cookieExpires s | Some e \<Rightarrow> e),
        cookies := cookies s ++ M1\<rparr>"
    by blast
  from Cons obtain E2 M2 where 2: "\<And>s. updateSessionFromCookies pd s cs =
      s\<lparr>cookieExpires := (case E2 of None \<Rightarrow> cookieExpires s | Some e \<Rightarrow> e),
        cookies := cookies s ++ M2\<rparr>"
    by blast
  show ?case
    by (intro exI[of _ "case E2 of None \<Rightarrow> E1 | Some e \<Rightarrow> Some e"] exI[of _ "M1 ++ M2"])
       (simp add: 1 2 split: option.splits)
qed

lemma cookie_eval:
  "updateSessionFromCookies (parse_date env0) session0
      [''sid=abc; Expires=Fri, 01 Jan 2100 00:00:00 GMT; Path=/''] =
   \<lparr> cookies = [''sid'' \<mapsto> ''abc''], apiKey = None, cookieExpires = Some (Some 4102444800000) \<rparr>"
  by (simp add: updateSessionFromCookie_def match_expires_def match_pair_def expires_at_def
      pair_at_def is_space_def to_upper_def env0_def session0_def)

text \<open>
  Claim C8. For every session and every list of \<^verbatim>\<open>set-cookie\<close> header strings,
  \<^verbatim>\<open>updateSessionFromCookies\<close> applied twice with the same list leaves the session
  (cookie jar, expiry and API key) as one application does, whatever the date parser.
\<close>

theorem updateSessionFromCookies_idempotent:
  "updateSessionFromCookies pd (updateSessionFromCookies pd s cs) cs =
   updateSessionFromCookies pd s cs"
proof -
  from cookies_shape[of pd cs] obtain E M where 2: "\<And>s. updateSessionFromCookies pd s cs =
      s\<lparr>cookieExpires := (case E of None \<Rightarrow> cookieExpires s | Some e \<Rightarrow> e),
        cookies := cookies s ++ M\<rparr>"
    by blast
  have 3: "\<And>m. m ++ M ++ M = m ++ M"
    by (rule ext) (simp add: map_add_def split: option.splits)
  show ?thesis by (simp add: 2 3 split: option.splits)
qed

theorem updateSessionFromCookies_idempotent_witness:
  "updateSessionFromCookies (parse_date env0)
     (updateSessionFromCookies (parse_date env0) session0
        [''sid=abc; Expires=Fri, 01 Jan 2100 00:00:00 GMT; Path=/''])
     [''sid=abc; Expires=Fri, 01 Jan 2100 00:00:00 GMT; Path=/''] =
   \<lparr> cookies = [''sid'' \<mapsto> ''abc''], apiKey = None, cookieExpires = Some (Some 4102444800000) \<rparr>"
  using updateSessionFromCookies_idempotent [of "parse_date env0" session0
      "[''sid=abc; Expires=Fri, 01 Jan 2100 00:00:00 GMT; Path=/'']"]
  by (simp only: cookie_eval)

section \<open>Door state\<close>

text \<open>
  Claim C2. When the \<^verbatim>\<open>updateDevice\<close> call inside \<^verbatim>\<open>getStatus\<close> returns and leaves a
  numeric state code on the device, \<^verbatim>\<open>getStatus\<close> returns \<open>CLOSED\<close>, \<open>OPEN\<close>,
  \<open>CLOSING\<close> or \<open>OPENING\<close> for the codes 0, 1, 2 and 3, and \<^verbatim>\<open>undefined\<close> (no error,
  nothing thrown) for every other number.
\<close>

theorem getStatus_maps_state:
  assumes "updateDevice env d w = (Inr (), d', w')" and "state d' = Some c"
  shows "getStatus env d w =
           (Inr (if c = 0 then Some CLOSED else if c = 1 then Some OPEN
                 else if c = 2 then Some CLOSING else if c = 3 then Some OPENING else None),
            d', w')"
  using assms by (simp add: getStatus_def doorStateMap_def)

theorem getStatus_maps_state_witness:
  "fst (getStatus env0 (device0\<lparr>name := Some (JStr ''MyGDO'')\<rparr>)
          (world0 session0 [(5, login_ok), (7, list_ok), (9, status_ok 5 2 1)] [])) =
   Inr (Some OPEN)"
proof -
  let ?r = "updateDevice env0 (device0\<lparr>name := Some (JStr ''MyGDO'')\<rparr>)
          (world0 session0 [(5, login_ok), (7, list_ok), (9, status_ok 5 2 1)] [])"
  have 1: "fst ?r = Inr ()"
    by (simp add: run_defs scenario_defs)
  have 2: "state (fst (snd ?r)) = Some 1"
    by (simp add: run_defs scenario_defs)
  have 3: "?r = (Inr (), fst (snd ?r), snd (snd ?r))"
    using 1 by (cases ?r) simp
  from getStatus_maps_state [OF 3 2] show ?thesis by simp
qed

section \<open>Opening and closing the door\<close>

text \<open>
  Claim C9. \<^verbatim>\<open>openDoor\<close> and \<^verbatim>\<open>closeDoor\<close> never throw, for any device and any world:
  whenever \<^verbatim>\<open>sendWebsocketCommand\<close> throws an error (authentication, addressing, channel
  or transport), the door operation returns normally and the error is appended to the
  error log.
\<close>

theorem doors_never_throw:
  "fst (openDoor env d w) \<noteq> Thrown e \<and> fst (closeDoor env d w) \<noteq> Thrown e \<and>
   (sendWebsocketCommand env d (doorCommand 1) w = (Thrown x, d1, w1) \<longrightarrow>
      openDoor env d w = (Returned, d1, w1\<lparr>errors := errors w1 @ [OpenDoorError x]\<rparr>)) \<and>
   (sendWebsocketCommand env d (doorCommand 0) w = (Thrown x, d1, w1) \<longrightarrow>
      closeDoor env d w = (Returned, d1, w1\<lparr>errors := errors w1 @ [CloseDoorError x]\<rparr>))"
  by (auto simp: openDoor_def closeDoor_def split: prod.splits completion.splits)

theorem doors_never_throw_witness:
  "openDoor env0 device0 (world0 session0 [] []) =
     (Returned, device0,
      (world0 session0 [] [])\<lparr>requests := [PostLogin ''me@example.com'' ''secret''],
                               errors := [OpenDoorError FetchError]\<rparr>) \<and>
   closeDoor env0 device0 (world0 session0 [] []) =
     (Returned, device0,
      (world0 session0 [] [])\<lparr>requests := [PostLogin ''me@example.com'' ''secret''],
                               errors := [CloseDoorError FetchError]\<rparr>)"
proof -
  let ?w = "world0 session0 [] []"
  let ?w1 = "?w\<lparr>requests := [PostLogin ''me@example.com'' ''secret'']\<rparr>"
  have a: "sendWebsocketCommand env0 device0 (doorCommand 1) ?w = (Thrown FetchError, device0, ?w1)"
    by (rule offline_command)
  have b: "sendWebsocketCommand env0 device0 (doorCommand 0) ?w = (Thrown FetchError, device0, ?w1)"
    by (rule offline_command)
  from doors_never_throw [of env0 device0 ?w FetchError FetchError device0 ?w1] a b
  have "openDoor env0 device0 ?w = (Returned, device0, ?w1\<lparr>errors := errors ?w1 @ [OpenDoorError FetchError]\<rparr>) \<and>
        closeDoor env0 device0 ?w = (Returned, device0, ?w1\<lparr>errors := errors ?w1 @ [CloseDoorError FetchError]\<rparr>)"
    by blast
  then show ?thesis by (simp add: world0_def)
qed

text \<open>
  Claim C10. When \<^verbatim>\<open>sendWebsocketCommand\<close> has to call \<^verbatim>\<open>updateDevice\<close> and the
  device then carries the number 0 as \<^verbatim>\<open>moduleId\<close> or as \<^verbatim>\<open>portId\<close>, the command
  throws the addressing error (\<^verbatim>\<open>doorModuleId is undefined\<close> when \<^verbatim>\<open>moduleId\<close> is
  falsy, \<^verbatim>\<open>doorPortId is undefined\<close> otherwise), although both are resolved numbers:
  the guard tests truthiness.
\<close>

theorem zero_address_rejected:
  assumes "\<not> truthy_num (moduleId d) \<or> \<not> truthy_num (portId d)"
    and "updateDevice env d w = (Inr (), d', w')"
    and "moduleId d' = Some 0 \<or> portId d' = Some 0"
  shows "sendWebsocketCommand env d message w =
           (Thrown (if \<not> truthy_num (moduleId d') then ModuleIdUndefined else PortIdUndefined), d', w')"
  using assms by (auto simp: sendWebsocketCommand_def)

theorem zero_address_rejected_witness:
  "fst (sendWebsocketCommand env0 (device0\<lparr>name := Some (JStr ''MyGDO'')\<rparr>) (doorCommand 1)
          (world0 session0 [(5, login_ok), (7, list_ok), (9, status_ok 5 0 1)]
             [[WsOpen, WsMessage (Some authorized_msg), WsPong]])) =
   Thrown ModuleIdUndefined"
proof -
  let ?d = "device0\<lparr>name := Some (JStr ''MyGDO'')\<rparr>"
  let ?r = "updateDevice env0 ?d
          (world0 session0 [(5, login_ok), (7, list_ok), (9, status_ok 5 0 1)]
             [[WsOpen, WsMessage (Some authorized_msg), WsPong]])"
  have 0: "\<not> truthy_num (moduleId ?d) \<or> \<not> truthy_num (portId ?d)"
    by (simp add: device0_def)
  have 1: "fst ?r = Inr ()"
    by (simp add: run_defs scenario_defs)
  have 2: "moduleId (fst (snd ?r)) = Some 0"
    by (simp add: run_defs scenario_defs)
  have 3: "?r = (Inr (), fst (snd ?r), snd (snd ?r))"
    using 1 by (cases ?r) simp
  from zero_address_rejected [OF 0 3 disjI1 [OF 2]] show ?thesis by (simp add: 2)
qed

section \<open>API key\<close>

lemma cookies_keep_apiKey:
  "apiKey (updateSessionFromCookies pd s cs) = apiKey s"
proof -
  from cookies_shape[of pd cs] obtain E M where "\<And>s. updateSessionFromCookies pd s cs =
      s\<lparr>cookieExpires := (case E of None \<Rightarrow> cookieExpires s | Some e \<Rightarrow> e),
        cookies := cookies s ++ M\<rparr>"
    by blast
  then show ?thesis by simp
qed

lemma request_requests: "requests (snd (request env rq w)) = requests w @ [rq]"
  by (simp add: request_def Let_def split: list.splits prod.splits reply.splits)

lemma request_errors: "errors (snd (request env rq w)) = errors w"
  by (simp add: request_def Let_def split: list.splits prod.splits reply.splits)

lemma request_apiKey: "apiKey (session (snd (request env rq w))) = apiKey (session w)"
  by (simp add: request_def Let_def cookies_keep_apiKey split: list.splits prod.splits reply.splits)

lemma getJson_snd: "snd (getJson env rq w) = snd (request env rq w)"
  by (simp add: getJson_def split: prod.splits sum.splits option.splits)

lemma getJson_requests: "requests (snd (getJson env rq w)) = requests w @ [rq]"
  by (simp add: getJson_snd request_requests)

lemma getJson_errors: "errors (snd (getJson env rq w)) = errors w"
  by (simp add: getJson_snd request_errors)

lemma getJson_apiKey: "apiKey (session (snd (getJson env rq w))) = apiKey (session w)"
  by (simp add: getJson_snd request_apiKey)


lemma getApiKey_fresh:
  "key_is_fresh w \<Longrightarrow> apiKey (session w) = Some k \<Longrightarrow> getApiKey env w = (Inr k, w)"
  by (simp add: getApiKey_def)

lemma getApiKey_stale_requests:
  assumes "\<not> key_is_fresh w"
  shows "requests (snd (getApiKey env w)) = requests w @ [PostLogin (email env) (password env)]"
proof -
  obtain r w1 where g: "getJson env (PostLogin (email env) (password env)) w = (r, w1)"
    by (cases "getJson env (PostLogin (email env) (password env)) w")
  with getJson_requests [of env "PostLogin (email env) (password env)" w]
  have "requests w1 = requests w @ [PostLogin (email env) (password env)]" by simp
  with g assms show ?thesis
    by (auto simp: getApiKey_def Let_def split: sum.splits option.splits)
qed

lemma getApiKey_stale_key:
  "\<not> key_is_fresh w \<Longrightarrow> getApiKey env w = (Inr k, w1) \<Longrightarrow>
   apiKey (session w1) = Some k \<and> truthy k"
  by (auto simp: getApiKey_def Let_def split: prod.splits sum.splits option.splits if_splits)

lemma getApiKey_errors: "errors (snd (getApiKey env w)) = errors w"
proof -
  obtain r w1 where g: "getJson env (PostLogin (email env) (password env)) w = (r, w1)"
    by (cases "getJson env (PostLogin (email env) (password env)) w")
  with getJson_errors [of env "PostLogin (email env) (password env)" w]
  have "errors w1 = errors w" by simp
  with g show ?thesis
    by (auto simp: getApiKey_def Let_def split: sum.splits option.splits)
qed

lemma login_eval:
  "getApiKey env0 (world0 session0 [(5, login_ok), (6, login_ok)] []) =
     (Inr (JStr ''k1''),
      \<lparr> session = session1, clock = 1005, replies = [(6, login_ok)],
        requests = [PostLogin ''me@example.com'' ''secret''], sockets = [], wire = [],
        errors = [] \<rparr>)"
  by (simp add: run_defs scenario_defs)

text \<open>
  Claim C5. A session that holds an API key (a truthy value, the only kind \<^verbatim>\<open>getApiKey\<close>
  ever stores) together with a cookie expiry strictly later than the clock makes
  \<^verbatim>\<open>getApiKey\<close> return that key and leave the world as it is: no request is issued.
  Consequently, after a call that had to log in and left an expiry \<open>t1\<close> in the session,
  a second call at any time before \<open>t1\<close> issues no further request (one login request in
  total), and a call at \<open>t1\<close> or later issues a second login request.
\<close>

theorem getApiKey_cached:
  "(apiKey (session w) = Some k \<and> truthy k \<and> cookieExpires (session w) = Some (Some t) \<and>
    clock w < t \<longrightarrow> getApiKey env w = (Inr k, w)) \<and>
   (\<not> key_is_fresh w0 \<and> getApiKey env w0 = (Inr k0, w1) \<and>
    cookieExpires (session w1) = Some (Some t1) \<longrightarrow>
      requests w1 = requests w0 @ [PostLogin (email env) (password env)] \<and>
      (c1 < t1 \<longrightarrow> getApiKey env (w1\<lparr>clock := c1\<rparr>) = (Inr k0, w1\<lparr>clock := c1\<rparr>)) \<and>
      (t1 \<le> c2 \<longrightarrow>
         requests (snd (getApiKey env (w1\<lparr>clock := c2\<rparr>))) =
         requests w0 @ [PostLogin (email env) (password env), PostLogin (email env) (password env)]))"
proof (intro conjI impI)
  assume "apiKey (session w) = Some k \<and> truthy k \<and> cookieExpires (session w) = Some (Some t) \<and>
    clock w < t"
  then show "getApiKey env w = (Inr k, w)"
    by (intro getApiKey_fresh) (simp_all add: key_is_fresh_def)
next
  assume a: "\<not> key_is_fresh w0 \<and> getApiKey env w0 = (Inr k0, w1) \<and>
    cookieExpires (session w1) = Some (Some t1)"
  from a getApiKey_stale_requests [of w0 env]
  show r1: "requests w1 = requests w0 @ [PostLogin (email env) (password env)]" by simp
  from a getApiKey_stale_key [of w0 env k0 w1]
  have k: "apiKey (session w1) = Some k0" "truthy k0" by simp_all
  {
    assume "c1 < t1"
    with a k show "getApiKey env (w1\<lparr>clock := c1\<rparr>) = (Inr k0, w1\<lparr>clock := c1\<rparr>)"
      by (intro getApiKey_fresh) (simp_all add: key_is_fresh_def)
  }
  {
    assume "t1 \<le> c2"
    with a have "\<not> key_is_fresh (w1\<lparr>clock := c2\<rparr>)" by (simp add: key_is_fresh_def)
    from getApiKey_stale_requests [OF this, of env] r1
    show "requests (snd (getApiKey env (w1\<lparr>clock := c2\<rparr>))) =
         requests w0 @ [PostLogin (email env) (password env), PostLogin (email env) (password env)]"
      by simp
  }
qed

theorem getApiKey_cached_witness:
  "getApiKey env0 (world0 session1 [] []) = (Inr (JStr ''k1''), world0 session1 [] []) \<and>
   requests (snd (getApiKey env0 (world0 session0 [(5, login_ok), (6, login_ok)] []))) =
     [PostLogin ''me@example.com'' ''secret''] \<and>
   requests (snd (getApiKey env0
      ((snd (getApiKey env0 (world0 session0 [(5, login_ok), (6, login_ok)] [])))\<lparr>clock := 2000\<rparr>))) =
     [PostLogin ''me@example.com'' ''secret''] \<and>
   requests (snd (getApiKey env0
      ((snd (getApiKey env0 (world0 session0 [(5, login_ok), (6, login_ok)] [])))
         \<lparr>clock := 4102444800000\<rparr>))) =
     [PostLogin ''me@example.com'' ''secret'', PostLogin ''me@example.com'' ''secret'']"
  using getApiKey_cached [of "world0 session1 [] []" "JStr ''k1''" 4102444800000 env0
      "world0 session0 [(5, login_ok), (6, login_ok)] []" "JStr ''k1''"
      "\<lparr> session = session1, clock = 1005, replies = [(6, login_ok)],
        requests = [PostLogin ''me@example.com'' ''secret''], sockets = [], wire = [],
        errors = [] \<rparr>" 4102444800000 2000 4102444800000]
  by (simp add: login_eval) (simp add: world0_def session0_def session1_def key_is_fresh_def env0_def)




section \<open>Device resolution\<close>

lemma getDevicesRaw_errors: "errors (snd (getDevicesRaw env w)) = errors w"
proof -
  obtain r w1 where g: "getJson env GetDevices w = (r, w1)"
    by (cases "getJson env GetDevices w")
  with getJson_errors [of env GetDevices w] have "errors w1 = errors w" by simp
  with g show ?thesis
    by (auto simp: getDevicesRaw_def split: sum.splits option.splits json.splits)
qed

lemma getDevices_errors: "errors (snd (getDevices env w)) = errors w"
proof -
  obtain r w1 where a: "getApiKey env w = (r, w1)" by (cases "getApiKey env w")
  obtain r2 w2 where b: "getDevicesRaw env w1 = (r2, w2)" by (cases "getDevicesRaw env w1")
  from a getApiKey_errors [of env w] have "errors w1 = errors w" by simp
  moreover from b getDevicesRaw_errors [of env w1] have "errors w2 = errors w1" by simp
  ultimately show ?thesis using a b
    by (auto simp: getDevices_def split: sum.splits)
qed

lemma device_of_raw_unset:
  "device_of_raw env raw = Inr x \<Longrightarrow>
   moduleId x = None \<and> portId x = None \<and> state x = None \<and> stateAsOf x = None"
  by (auto simp: device_of_raw_def split: if_splits)

lemma map_devices_unset:
  "map_devices env raws = Inr ds \<Longrightarrow> x \<in> set ds \<Longrightarrow>
   moduleId x = None \<and> portId x = None \<and> state x = None \<and> stateAsOf x = None"
proof (induction raws arbitrary: ds)
  case Nil
  then show ?case by simp
next
  case (Cons raw raws)
  then show ?case
    by (auto split: sum.splits dest: device_of_raw_unset)
qed

lemma find_in_set: "find P xs = Some x \<Longrightarrow> x \<in> set xs"
  by (induction xs) (auto split: if_splits)


lemma assign_None: "assign d None = d"
  by (simp add: assign_def)

lemma getDevices_listed:
  assumes "getDevices env w = (Inr ds, w1)" and "x \<in> set ds"
  shows "stateAsOf x = None"
proof -
  from assms(1) have "\<exists>raws. map_devices env raws = Inr ds"
    by (auto simp: getDevices_def split: prod.splits sum.splits)
  with assms(2) map_devices_unset show ?thesis by blast
qed

lemma getDeviceId_shape:
  assumes "getDeviceId env d w = (r, d', w')"
  shows "errors w' = errors w \<and> stateAsOf d' = stateAsOf d \<and> (\<exists>found. d' = assign d found)"
proof (cases "truthy_val (id_dev d)")
  case True
  with assms have "d' = d" "w' = w" by (simp_all add: getDeviceId_def)
  with assign_None [of d] show ?thesis by metis
next
  case False
  obtain r1 w1 where g: "getDevices env w = (r1, w1)" by (cases "getDevices env w")
  with getDevices_errors [of env w] have e: "errors w1 = errors w" by simp
  show ?thesis
  proof (cases r1)
    case (Inl x)
    with assms False g e have "d' = d" "errors w' = errors w" by (auto simp: getDeviceId_def)
    with assign_None [of d] show ?thesis by metis
  next
    case (Inr ds)
    define P :: "device \<Rightarrow> bool" where "P = (if truthy_val (name d) then (\<lambda>x. strict_eq (name x) (name d))
                         else (\<lambda>x. type_dev x \<noteq> Some hub))"
    from assms False g Inr have dw: "d' = assign d (find P ds)" "w' = w1"
      by (simp_all add: getDeviceId_def P_def split: if_splits)
    have "stateAsOf (assign d (find P ds)) = stateAsOf d"
    proof (cases "find P ds")
      case None
      then show ?thesis by (simp add: assign_def)
    next
      case (Some x)
      then have "x \<in> set ds" by (rule find_in_set)
      with g Inr have "stateAsOf x = None" by (auto dest: getDevices_listed)
      with Some show ?thesis by (simp add: assign_def)
    qed
    with dw e show ?thesis by auto
  qed
qed

lemma updateDevice_cases:
  assumes "updateDevice env d w = (r, d', w')"
  shows "\<exists>found d1. d1 = assign d found \<and> stateAsOf d1 = stateAsOf d \<and>
           ((d' = d1 \<and> (r = Inr () \<longrightarrow> errors w' = errors w @ [DeviceTypeMapNotFound])) \<or>
            (\<exists>p m s. d' = d1\<lparr>portId := p, moduleId := m, state := s, stateAsOf := Some (clock w')\<rparr> \<and>
                 r = Inr () \<and> errors w' = errors w))"
proof -
  obtain r1 d1 w1 where s1:
    "(if \<not> truthy_val (id_dev d) then getDeviceId env d w else (Inr (), d, w)) = (r1, d1, w1)"
    by (cases "if \<not> truthy_val (id_dev d) then getDeviceId env d w else (Inr (), d, w)")
  have a1: "errors w1 = errors w \<and> stateAsOf d1 = stateAsOf d \<and> (\<exists>found. d1 = assign d found)"
  proof (cases "truthy_val (id_dev d)")
    case True
    with s1 have "d1 = d" "w1 = w" by simp_all
    with assign_None [of d] show ?thesis by metis
  next
    case False
    with s1 getDeviceId_shape [of env d w r1 d1 w1] show ?thesis by simp
  qed
  then obtain found where fd: "d1 = assign d found" by blast
  obtain r2 w2 where s2: "getApiKey env w1 = (r2, w2)" by (cases "getApiKey env w1")
  with getApiKey_errors [of env w1] have a2: "errors w2 = errors w1" by simp
  obtain r3 w3 where s3: "getJson env (GetDevice (id_dev d1)) w2 = (r3, w3)"
    by (cases "getJson env (GetDevice (id_dev d1)) w2")
  with getJson_errors [of env "GetDevice (id_dev d1)" w2] have a3: "errors w3 = errors w2" by simp
  from a1 a2 a3 have e3: "errors w3 = errors w" by simp
  have main: "(d' = d1 \<and> (r = Inr () \<longrightarrow> errors w' = errors w @ [DeviceTypeMapNotFound])) \<or>
        (\<exists>p m s. d' = d1\<lparr>portId := p, moduleId := m, state := s, stateAsOf := Some (clock w')\<rparr> \<and>
             r = Inr () \<and> errors w' = errors w)"
  proof (cases r1)
    case (Inl e)
    with assms s1 show ?thesis unfolding updateDevice_def by auto
  next
    case r1: (Inr u1)
    show ?thesis
    proof (cases r2)
      case (Inl e)
      with assms s1 s2 r1 show ?thesis unfolding updateDevice_def by auto
    next
      case r2: (Inr k)
      show ?thesis
      proof (cases r3)
        case (Inl e)
        with assms s1 s2 s3 r1 r2 show ?thesis unfolding updateDevice_def by auto
      next
        case r3: (Inr vals)
        show ?thesis
        proof (cases "truthy_val (js_length (field_of ''result'' (Some vals)))")
          case False
          with assms s1 s2 s3 r1 r2 r3 show ?thesis unfolding updateDevice_def by auto
        next
          case len: True
          show ?thesis
          proof (cases "truthy_val (field_of ''deviceTypeMap'' (elem0 (field_of ''result'' (Some vals))))")
            case False
            with assms s1 s2 s3 r1 r2 r3 len e3 show ?thesis
              unfolding updateDevice_def by (auto simp: Let_def)
          next
            case True
            with assms s1 s2 s3 r1 r2 r3 len e3
            have "\<exists>p m s. d' = d1\<lparr>portId := p, moduleId := m, state := s, stateAsOf := Some (clock w')\<rparr>"
              and "r = Inr ()" and "errors w' = errors w"
              unfolding updateDevice_def by (auto simp: Let_def)
            then show ?thesis by blast
          qed
        qed
      qed
    qed
  qed
  from fd a1 main show ?thesis by blast
qed





lemma empty_map_eval:
  "updateDevice env0 device1 (world0 session1 [(9, status_empty_map)] []) =
     (Inr (),
      device1\<lparr>portId := None, moduleId := None, state := None, stateAsOf := Some 1009\<rparr>,
      (world0 session1 [] [])\<lparr>clock := 1009, requests := [GetDevice (Some (JStr ''abc123''))]\<rparr>)"
  by (simp add: run_defs scenario_defs)

lemma no_map_eval:
  "truthy_val (id_dev d) \<Longrightarrow>
   updateDevice env0 d (world0 session1 [(9, status_no_map)] []) =
     (Inr (), d,
      (world0 session1 [] [])\<lparr>clock := 1009, requests := [GetDevice (id_dev d)],
         errors := [DeviceTypeMapNotFound]\<rparr>)"
  by (simp add: run_defs scenario_defs)

lemma updateDevice_logged:
  assumes "updateDevice env d w = (Inr (), d', w')"
  shows "(errors w' = errors w \<longrightarrow> stateAsOf d' = Some (clock w')) \<and>
         (errors w' \<noteq> errors w \<longrightarrow>
            errors w' = errors w @ [DeviceTypeMapNotFound] \<and> stateAsOf d' = stateAsOf d)"
proof -
  from updateDevice_cases [OF assms] obtain d1 where
    1: "stateAsOf d1 = stateAsOf d" and
    2: "(d' = d1 \<and> errors w' = errors w @ [DeviceTypeMapNotFound]) \<or>
        (\<exists>p m s. d' = d1\<lparr>portId := p, moduleId := m, state := s, stateAsOf := Some (clock w')\<rparr> \<and>
                 errors w' = errors w)"
    by blast
  from 2 show ?thesis
  proof
    assume "d' = d1 \<and> errors w' = errors w @ [DeviceTypeMapNotFound]"
    with 1 show ?thesis by simp
  next
    assume "\<exists>p m s. d' = d1\<lparr>portId := p, moduleId := m, state := s, stateAsOf := Some (clock w')\<rparr> \<and>
                 errors w' = errors w"
    then obtain p m s where
      "d' = d1\<lparr>portId := p, moduleId := m, state := s, stateAsOf := Some (clock w')\<rparr>"
      "errors w' = errors w" by blast
    then show ?thesis by simp
  qed
qed

lemma updateDevice_known:
  assumes "truthy_val (id_dev d)" and "key_is_fresh w"
    and "replies w = (dt, Response cs (Some vals)) # rest"
    and "truthy_val (js_length (field_of ''result'' (Some vals)))"
  shows "(truthy_val (field_of ''deviceTypeMap'' (elem0 (field_of ''result'' (Some vals)))) \<longrightarrow>
            fst (updateDevice env d w) = Inr () \<and>
            stateAsOf (fst (snd (updateDevice env d w))) = Some (clock w + int dt)) \<and>
         (\<not> truthy_val (field_of ''deviceTypeMap'' (elem0 (field_of ''result'' (Some vals)))) \<longrightarrow>
            fst (updateDevice env d w) = Inr () \<and> fst (snd (updateDevice env d w)) = d)"
proof -
  from assms(2) obtain k where "apiKey (session w) = Some k"
    by (cases "apiKey (session w)") (auto simp: key_is_fresh_def)
  with assms(2) have g: "getApiKey env w = (Inr k, w)" by (simp add: getApiKey_fresh)
  obtain w3 where j: "getJson env (GetDevice (id_dev d)) w = (Inr vals, w3)"
    "clock w3 = clock w + int dt"
    using assms(3) by (simp add: getJson_def request_def)
  show ?thesis
    using assms(1,4) g j by (simp add: updateDevice_def Let_def)
qed

text \<open>
  Claim C3, as the code has it. A call of \<^verbatim>\<open>updateDevice\<close> that returns normally without
  reporting \<^verbatim>\<open>deviceTypeMap not found\<close> stamps \<^verbatim>\<open>stateAsOf\<close> with the clock at its
  return, whether or not a module, a port or a door-state code was found. A call that
  returns normally after reporting \<^verbatim>\<open>deviceTypeMap not found\<close> leaves \<^verbatim>\<open>stateAsOf\<close>
  as it was. In terms of the status document, for a device with a known id and a session
  with a fresh key: when the \<^verbatim>\<open>result\<close> of the document has a truthy length, the call
  returns normally; it stamps \<^verbatim>\<open>stateAsOf\<close> with the time at which the response arrived
  when the first element has a truthy \<^verbatim>\<open>deviceTypeMap\<close>, and it leaves the whole device
  unchanged when it has none.
\<close>

theorem updateDevice_stamps:
  "(updateDevice env d w = (Inr (), d', w') \<longrightarrow>
      (errors w' = errors w \<longrightarrow> stateAsOf d' = Some (clock w')) \<and>
      (errors w' \<noteq> errors w \<longrightarrow>
         errors w' = errors w @ [DeviceTypeMapNotFound] \<and> stateAsOf d' = stateAsOf d)) \<and>
   (truthy_val (id_dev d2) \<and> key_is_fresh w2 \<and>
    replies w2 = (dt, Response cs (Some vals)) # rest \<and>
    truthy_val (js_length (field_of ''result'' (Some vals))) \<longrightarrow>
      (truthy_val (field_of ''deviceTypeMap'' (elem0 (field_of ''result'' (Some vals)))) \<longrightarrow>
         fst (updateDevice env d2 w2) = Inr () \<and>
         stateAsOf (fst (snd (updateDevice env d2 w2))) = Some (clock w2 + int dt)) \<and>
      (\<not> truthy_val (field_of ''deviceTypeMap'' (elem0 (field_of ''result'' (Some vals)))) \<longrightarrow>
         fst (updateDevice env d2 w2) = Inr () \<and> fst (snd (updateDevice env d2 w2)) = d2))"
  using updateDevice_logged [of env d w d' w']
    updateDevice_known [of d2 w2 dt cs vals rest env]
  by blast

theorem updateDevice_stamps_witness:
  "stateAsOf (fst (snd (updateDevice env0 device1 (world0 session1 [(9, status_empty_map)] [])))) =
     Some 1009 \<and>
   state (fst (snd (updateDevice env0 device1 (world0 session1 [(9, status_empty_map)] [])))) =
     None \<and>
   stateAsOf (fst (snd (updateDevice env0 device1 (world0 session1 [(9, status_no_map)] [])))) =
     Some 500"
proof -
  have t: "truthy_val (id_dev device1)" by (simp add: device1_def)
  have f: "key_is_fresh (world0 session1 [(9, status_empty_map)] [])"
    "key_is_fresh (world0 session1 [(9, status_no_map)] [])"
    by (simp_all add: key_is_fresh_def world0_def session1_def)
  have r: "replies (world0 session1 [(9, status_empty_map)] []) =
             (9, Response [] (Some (JObj [(''result'', JArr [JObj [(''deviceTypeMap'', JObj [])]])]))) # []"
    "replies (world0 session1 [(9, status_no_map)] []) =
             (9, Response [] (Some (JObj [(''result'', JArr [JObj []])]))) # []"
    by (simp_all add: world0_def status_empty_map_def status_no_map_def)
  note a = updateDevice_stamps [where env = env0 and d = device1
      and w = "world0 session1 [(9, status_empty_map)] []"
      and d' = "device1\<lparr>portId := None, moduleId := None, state := None, stateAsOf := Some 1009\<rparr>"
      and w' = "(world0 session1 [] [])\<lparr>clock := 1009,
                  requests := [GetDevice (Some (JStr ''abc123''))]\<rparr>"
      and ?d2.0 = device1 and ?w2.0 = "world0 session1 [(9, status_empty_map)] []"
      and dt = 9 and cs = "[]" and rest = "[]"
      and vals = "JObj [(''result'', JArr [JObj [(''deviceTypeMap'', JObj [])]])]"]
  note b = updateDevice_stamps [where env = env0 and d = device1
      and w = "world0 session1 [(9, status_no_map)] []" and d' = device1
      and w' = "(world0 session1 [] [])\<lparr>clock := 1009, requests := [GetDevice (id_dev device1)],
                  errors := [DeviceTypeMapNotFound]\<rparr>"
      and ?d2.0 = device1 and ?w2.0 = "world0 session1 [(9, status_no_map)] []"
      and dt = 9 and cs = "[]" and rest = "[]"
      and vals = "JObj [(''result'', JArr [JObj []])]"]
  from a b t f r show ?thesis
    by (simp add: empty_map_eval no_map_eval [OF t]) (simp add: device1_def)
qed

text \<open>
  Claim C3 as stated fails: for a device with a known id and a status document
  \<^verbatim>\<open>{"result": [{}]}\<close>, which has no \<^verbatim>\<open>deviceTypeMap\<close>, the call returns normally (it
  does not fail with the protocol error) and \<^verbatim>\<open>stateAsOf\<close> is still unset.
\<close>

theorem updateDevice_no_stamp_counterexample:
  "fst (updateDevice env0 (device0\<lparr>id_dev := Some (JStr ''abc123'')\<rparr>)
          (world0 session1 [(9, status_no_map)] [])) = Inr () \<and>
   stateAsOf (fst (snd (updateDevice env0 (device0\<lparr>id_dev := Some (JStr ''abc123'')\<rparr>)
          (world0 session1 [(9, status_no_map)] [])))) = None"
proof -
  have t: "truthy_val (id_dev (device0\<lparr>id_dev := Some (JStr ''abc123'')\<rparr>))" by simp
  show ?thesis by (simp add: no_map_eval [OF t]) (simp add: device0_def)
qed




section \<open>Device list\<close>













section \<open>Command channel protocol\<close>

lemma settle_Pending: "settle Pending x = x"
  by (simp add: settle_def)

lemma settle_settled: "p \<noteq> Pending \<Longrightarrow> settle p x = p"
  by (simp add: settle_def)












end
